theory Spec2Isabelle
  imports Complex_Main
begin

section \<open>Numeric conventions\<close>

text \<open>
  The analyzer computes on IEEE doubles through numpy. The embedding idealises a finite
  double as a \<^typ>\<open>real\<close>: rounding and overflow are not modelled. The one special value
  the code really produces is NaN (the normalisation of a silent buffer divides zero by
  zero), so the onset stage works on \<open>fval\<close>, where \<open>None\<close> is NaN. Exceptions of the
  source are values of \<open>py_error\<close>.
\<close>

datatype py_error = ValueError | ZeroDivisionError

type_synonym fval = "real option"

definition lift2 :: "(real \<Rightarrow> real \<Rightarrow> real) \<Rightarrow> fval \<Rightarrow> fval \<Rightarrow> fval" where
  "lift2 f a b =
     (case a of None \<Rightarrow> None
      | Some x \<Rightarrow> (case b of None \<Rightarrow> None | Some y \<Rightarrow> Some (f x y)))"

definition fadd :: "fval \<Rightarrow> fval \<Rightarrow> fval" where
  "fadd = lift2 plus"

definition fsub :: "fval \<Rightarrow> fval \<Rightarrow> fval" where
  "fsub = lift2 minus"

definition fmul :: "fval \<Rightarrow> fval \<Rightarrow> fval" where
  "fmul = lift2 times"

text \<open>
  Division: numpy gives NaN for \<open>0 / 0\<close> (with a warning, not an exception). Every
  division by zero the source can perform has a zero numerator, so infinities are not
  needed.
\<close>

definition fdiv :: "fval \<Rightarrow> fval \<Rightarrow> fval" where
  "fdiv a b =
     (case a of None \<Rightarrow> None
      | Some x \<Rightarrow> (case b of None \<Rightarrow> None
                   | Some y \<Rightarrow> if y = 0 then None else Some (x / y)))"

text \<open>A comparison with NaN is false.\<close>

definition fgt :: "fval \<Rightarrow> fval \<Rightarrow> bool" where
  "fgt a b =
     (case a of None \<Rightarrow> False
      | Some x \<Rightarrow> (case b of None \<Rightarrow> False | Some y \<Rightarrow> x > y))"

definition fsqrt :: "fval \<Rightarrow> fval" where
  "fsqrt a = map_option sqrt a"

text \<open>\<open>np.sum\<close>, \<open>np.mean\<close> (NaN on an empty array), \<open>np.std\<close>, all propagating NaN.\<close>

definition fsum :: "fval list \<Rightarrow> fval" where
  "fsum xs = foldr fadd xs (Some 0)"

definition fmean :: "fval list \<Rightarrow> fval" where
  "fmean xs = fdiv (fsum xs) (Some (real (length xs)))"

definition fstd :: "fval list \<Rightarrow> fval" where
  "fstd xs =
     (let m = fmean xs
      in fsqrt (fmean (map (\<lambda>x. let d = fsub x m in fmul d d) xs)))"

text \<open>
  \<open>np.max\<close>: raises ValueError on an empty array, propagates NaN otherwise. \<open>amax\<close> is
  the reduction on a non-empty array.
\<close>

definition amax :: "fval list \<Rightarrow> fval" where
  "amax xs = fold (lift2 max) (tl xs) (hd xs)"

definition np_max :: "fval list \<Rightarrow> py_error + fval" where
  "np_max xs = (if xs = [] then Inl ValueError else Inr (amax xs))"

subsection \<open>numpy reductions on finite values\<close>

text \<open>\<open>np.mean\<close> of a non-empty sequence: the sum divided by the count.\<close>

definition np_mean :: "real list \<Rightarrow> real" where
  "np_mean xs = sum_list xs / real (length xs)"

text \<open>
  \<open>np.median\<close> of a non-empty sequence: the middle element of the sorted data, or the
  mean of the two middle elements when the count is even.
\<close>

definition np_median :: "real list \<Rightarrow> real" where
  "np_median xs =
     (let s = sort xs; n = length xs in
      if n mod 2 = 1 then s ! (n div 2)
      else np_mean [s ! (n div 2 - 1), s ! (n div 2)])"

text \<open>
  \<open>np.percentile(a, q)\<close> with numpy's default linear interpolation, on a non-empty
  array: the virtual index \<open>(n - 1) * q / 100\<close> into the sorted data, its floor and the
  next index (clipped to the last one), and the linear interpolation between the two.
\<close>

definition np_percentile :: "real list \<Rightarrow> real \<Rightarrow> real" where
  "np_percentile a q =
     (let s = sort a; n = length a;
          virtual_index = real (n - 1) * (q / 100);
          previous_index = nat \<lfloor>virtual_index\<rfloor>;
          next_index = min (previous_index + 1) (n - 1);
          gamma = virtual_index - real previous_index
      in s ! previous_index + gamma * (s ! next_index - s ! previous_index))"

subsection \<open>Python sequences\<close>

text \<open>\<open>range(i, stop, step)\<close> for a positive step.\<close>

function py_range :: "nat \<Rightarrow> nat \<Rightarrow> nat \<Rightarrow> nat list" where
  "py_range i stop step =
     (if step = 0 \<or> stop \<le> i then [] else i # py_range (i + step) stop step)"
  by pat_completeness auto
termination
  by (relation "measure (\<lambda>(i, stop, step). stop - i)") auto

declare py_range.simps [simp del]

text \<open>
  The slice \<open>xs[-k:]\<close> for \<open>k \<ge> 0\<close>: the last \<open>k\<close> elements, the whole list when
  \<open>k\<close> exceeds the length, and also the whole list when \<open>k = 0\<close> (\<open>xs[-0:]\<close> is
  \<open>xs[0:]\<close>).
\<close>

definition py_tail :: "nat \<Rightarrow> 'a list \<Rightarrow> 'a list" where
  "py_tail k xs = (if k = 0 then xs else drop (length xs - k) xs)"

section \<open>The analyzer: \<open>bpm_core.BPMAnalyzer\<close>\<close>

record BPMAnalyzer =
  frame_size :: nat
  hop_size :: nat
  beat_threshold_multiplier :: real
  bpm_smoothing_window :: nat
  spectral_flux_threshold :: real

text \<open>
  \<open>__init__(self, frame_size=2048, hop_size=512)\<close> stores its arguments and three
  constants. The result is a sum so that a rejection could be expressed; the source has
  no raising statement.
\<close>

definition BPMAnalyzer_init :: "nat \<Rightarrow> nat \<Rightarrow> py_error + BPMAnalyzer" where
  "BPMAnalyzer_init fs hs =
     Inr \<lparr>frame_size = fs, hop_size = hs, beat_threshold_multiplier = 1.3,
          bpm_smoothing_window = 3, spectral_flux_threshold = 0.15\<rparr>"


subsection \<open>Onset curve\<close>

text \<open>
  Line 69, \<open>audio_data / np.max(np.abs(audio_data))\<close>: ValueError on an empty buffer,
  NaN everywhere on a silent one.
\<close>

definition normalize_audio :: "real list \<Rightarrow> py_error + fval list" where
  "normalize_audio audio_data =
     (case np_max (map (\<lambda>x. Some \<bar>x\<bar>) audio_data) of
        Inl e \<Rightarrow> Inl e
      | Inr peak \<Rightarrow> Inr (map (\<lambda>x. fdiv (Some x) peak) audio_data))"

text \<open>
  The frame starts \<open>range(0, len(audio_data) - self.frame_size, self.hop_size)\<close>. A
  zero step raises ValueError; a stop that is zero or negative gives no frame, which the
  truncating subtraction on \<^typ>\<open>nat\<close> renders as stop \<open>0\<close>.
\<close>

definition frame_starts :: "BPMAnalyzer \<Rightarrow> nat \<Rightarrow> py_error + nat list" where
  "frame_starts self n =
     (if hop_size self = 0 then Inl ValueError
      else Inr (py_range 0 (n - frame_size self) (hop_size self)))"

definition frame_at :: "BPMAnalyzer \<Rightarrow> fval list \<Rightarrow> nat \<Rightarrow> fval list" where
  "frame_at self audio_data i = take (frame_size self) (drop i audio_data)"

text \<open>Lines 72-75: the root mean square of each frame.\<close>

definition energy_envelope :: "BPMAnalyzer \<Rightarrow> fval list \<Rightarrow> nat list \<Rightarrow> fval list" where
  "energy_envelope self audio_data starts =
     map (\<lambda>i. fsqrt (fmean (map (\<lambda>x. fmul x x) (frame_at self audio_data i)))) starts"

text \<open>
  \<open>_calculate_spectral_flux\<close>. The magnitude spectrum of a Hann-windowed frame,
  \<open>np.abs(np.fft.rfft(frame * np.hanning(frame_size)))\<close>, is numpy's: it is the
  parameter \<open>spectrum\<close>. The loop carries \<open>prev_magnitude\<close>; the first frame yields no
  flux value. \<open>np.maximum(0, d)\<close> propagates NaN. The transform gives the same number of
  bins for every frame, so the element-wise difference is taken pairwise.
\<close>

definition flux_value :: "fval list \<Rightarrow> fval list \<Rightarrow> fval" where
  "flux_value magnitude prev_magnitude =
     fsum (map (\<lambda>d. fmul d d)
            (map2 (\<lambda>m p. map_option (max 0) (fsub m p)) magnitude prev_magnitude))"

fun flux_loop :: "(fval list \<Rightarrow> fval list) \<Rightarrow> fval list option \<Rightarrow> fval list list \<Rightarrow> fval list"
  where
  "flux_loop spectrum prev_magnitude [] = []"
| "flux_loop spectrum prev_magnitude (frame # frames) =
     (let magnitude = spectrum frame
      in (case prev_magnitude of None \<Rightarrow> [] | Some pm \<Rightarrow> [flux_value magnitude pm])
         @ flux_loop spectrum (Some magnitude) frames)"

definition calculate_spectral_flux ::
  "(fval list \<Rightarrow> fval list) \<Rightarrow> BPMAnalyzer \<Rightarrow> fval list \<Rightarrow> nat list \<Rightarrow> fval list" where
  "calculate_spectral_flux spectrum self audio_data starts =
     (let flux = flux_loop spectrum None (map (frame_at self audio_data) starts)
      in if flux \<noteq> [] then
           (let max_flux = amax flux
            in if fgt max_flux (Some 0) then map (\<lambda>v. fdiv v max_flux) flux else flux)
         else flux)"

text \<open>Lines 82-83: both arrays cut to the shorter length, then \<open>0.7 * e + 0.3 * f\<close>.\<close>

definition combine_onset :: "fval list \<Rightarrow> fval list \<Rightarrow> fval list" where
  "combine_onset energy spectral_flux =
     (let min_length = min (length energy) (length spectral_flux)
      in map2 (\<lambda>e f. fadd (fmul (Some 0.7) e) (fmul (Some 0.3) f))
           (take min_length energy) (take min_length spectral_flux))"

subsection \<open>Beat detection\<close>

text \<open>
  Lines 86-97: the threshold at frame \<open>i\<close> from the mean and standard deviation of
  \<open>combined_onset[max(0, i - 30) : min(len, i + 1)]\<close>.
\<close>

definition dynamic_threshold :: "BPMAnalyzer \<Rightarrow> fval list \<Rightarrow> nat \<Rightarrow> fval" where
  "dynamic_threshold self combined_onset i =
     (let window_size = 30;
          start_idx = i - window_size;
          end_idx = min (length combined_onset) (i + 1);
          local = take (end_idx - start_idx) (drop start_idx combined_onset);
          local_mean = fmean local;
          local_std = (if end_idx > start_idx then fstd local else Some 0)
      in fadd local_mean (fmul (Some (beat_threshold_multiplier self)) local_std))"

text \<open>Lines 100-107: the strict local maxima above the threshold, boundary frames excluded.\<close>

definition is_peak :: "BPMAnalyzer \<Rightarrow> fval list \<Rightarrow> nat \<Rightarrow> bool" where
  "is_peak self combined_onset i =
     (fgt (combined_onset ! i) (combined_onset ! (i - 1)) \<and>
      fgt (combined_onset ! i) (combined_onset ! (i + 1)) \<and>
      fgt (combined_onset ! i) (dynamic_threshold self combined_onset i))"

definition peak_frames :: "BPMAnalyzer \<Rightarrow> fval list \<Rightarrow> nat list" where
  "peak_frames self combined_onset =
     filter (is_peak self combined_onset) [1..<length combined_onset - 1]"

text \<open>
  Lines 108-110: \<open>beat_time = i * self.hop_size / sample_rate\<close>, which raises
  ZeroDivisionError at the first peak when the sample rate is zero.
\<close>

definition beat_times :: "BPMAnalyzer \<Rightarrow> nat \<Rightarrow> nat list \<Rightarrow> py_error + real list" where
  "beat_times self sample_rate peaks =
     (if peaks \<noteq> [] \<and> sample_rate = 0 then Inl ZeroDivisionError
      else Inr (map (\<lambda>i. real (i * hop_size self) / real sample_rate) peaks))"

text \<open>
  Lines 112-120, the refractory merge: \<open>refined_beats\<close> is the accumulator; a beat is
  appended when the accumulator is empty or
  \<open>beat - refined_beats[-1] > min_beat_interval\<close>, with \<open>min_beat_interval = 0.05\<close>.
\<close>

definition min_beat_interval :: real where
  "min_beat_interval = 0.05"

fun refine_loop :: "real list \<Rightarrow> real list \<Rightarrow> real list" where
  "refine_loop refined_beats [] = refined_beats"
| "refine_loop refined_beats (beat # rest) =
     (if refined_beats = [] \<or> beat - last refined_beats > min_beat_interval
      then refine_loop (refined_beats @ [beat]) rest
      else refine_loop refined_beats rest)"

definition refine_beats :: "real list \<Rightarrow> real list" where
  "refine_beats beats = refine_loop [] beats"

definition detect_beats_improved ::
  "(fval list \<Rightarrow> fval list) \<Rightarrow> BPMAnalyzer \<Rightarrow> real list \<Rightarrow> nat \<Rightarrow> py_error + real list"
  where
  "detect_beats_improved spectrum self audio_data sample_rate =
     (case normalize_audio audio_data of
        Inl e \<Rightarrow> Inl e
      | Inr normalized \<Rightarrow>
          (case frame_starts self (length normalized) of
             Inl e \<Rightarrow> Inl e
           | Inr starts \<Rightarrow>
               (let energy = energy_envelope self normalized starts;
                    spectral_flux = calculate_spectral_flux spectrum self normalized starts;
                    combined_onset = combine_onset energy spectral_flux
                in case beat_times self sample_rate (peak_frames self combined_onset) of
                     Inl e \<Rightarrow> Inl e
                   | Inr beats \<Rightarrow> Inr (refine_beats beats))))"

section \<open>Tempo candidates: \<open>BPMAnalyzer._calculate_bpm_candidates\<close>\<close>

text \<open>
  The inner loop over the ratios \<open>[0.5, 1.0, 2.0]\<close> for one interval (lines 184-194):
  nothing for a non-positive interval, otherwise the candidates \<open>base_bpm * ratio\<close> that
  pass the range check \<open>40 <= candidate <= 220\<close>, in the order of the ratios.
\<close>

definition interval_candidates :: "real \<Rightarrow> real list" where
  "interval_candidates interval =
     (if interval > 0 then
        (let base_bpm = 60 / interval in
         filter (\<lambda>candidate. 40 \<le> candidate \<and> candidate \<le> 220)
           (map (\<lambda>ratio. base_bpm * ratio) [0.5, 1.0, 2.0]))
      else [])"

text \<open>
  The whole function: the early return for fewer than two beats, the interval loop
  \<open>for i in range(1, len(beats))\<close> reading \<open>beats[i] - beats[i-1]\<close>, and the candidate
  loop appending to one list.
\<close>

definition calculate_bpm_candidates :: "real list \<Rightarrow> real list" where
  "calculate_bpm_candidates beats =
     (if length beats < 2 then []
      else
        (let intervals = map (\<lambda>i. beats ! i - beats ! (i - 1)) [1..<length beats]
         in concat (map interval_candidates intervals)))"

section \<open>Aggregation: \<open>_filter_outliers_iqr\<close>, \<open>_moving_average\<close>, \<open>analyze_audio_data\<close>\<close>

definition filter_outliers_iqr :: "real list \<Rightarrow> real list" where
  "filter_outliers_iqr values =
     (if values = [] then []
      else
        (let q1 = np_percentile values 25;
             q3 = np_percentile values 75;
             iqr = q3 - q1;
             lower_bound = q1 - 1.5 * iqr;
             upper_bound = q3 + 1.5 * iqr
         in filter (\<lambda>v. v \<ge> lower_bound \<and> v \<le> upper_bound) values))"

text \<open>
  \<open>_moving_average\<close>: the loop \<open>for i in range(len(values) - window_size + 1)\<close> over the
  slices \<open>values[i:i + window_size]\<close>.
\<close>

definition moving_average :: "real list \<Rightarrow> nat \<Rightarrow> real list" where
  "moving_average values window_size =
     (if length values < window_size then values
      else map (\<lambda>i. np_mean (take window_size (drop i values)))
             [0..<length values - window_size + 1])"

text \<open>Lines 43-55 of \<open>analyze_audio_data\<close>: from the candidates to the estimate.\<close>

definition estimate_from_candidates :: "BPMAnalyzer \<Rightarrow> real list \<Rightarrow> real" where
  "estimate_from_candidates self bpm_candidates =
     (let filtered_bpm = filter_outliers_iqr bpm_candidates in
      if filtered_bpm = [] then
        (if bpm_candidates \<noteq> [] then np_median bpm_candidates else 0)
      else if length filtered_bpm \<ge> bpm_smoothing_window self then
        np_mean (moving_average filtered_bpm (bpm_smoothing_window self))
      else np_mean filtered_bpm)"

definition analyze_audio_data ::
  "(fval list \<Rightarrow> fval list) \<Rightarrow> BPMAnalyzer \<Rightarrow> real list \<Rightarrow> nat \<Rightarrow> py_error + real" where
  "analyze_audio_data spectrum self audio_data sample_rate =
     (case detect_beats_improved spectrum self audio_data sample_rate of
        Inl e \<Rightarrow> Inl e
      | Inr beats \<Rightarrow>
          if beats = [] then Inr 0
          else Inr (estimate_from_candidates self (calculate_bpm_candidates beats)))"

section \<open>The streaming engine: \<open>BPMGUIApp._mic_monitor_thread\<close>\<close>

text \<open>
  The attributes the monitor thread and the audio callback share. \<open>mic_bpm\<close> is \<open>None\<close>
  where the source's \<open>hasattr(self, 'mic_bpm')\<close> would be false. The constructor sets
  \<open>mic_sample_rate = 44100\<close> and \<open>mic_bpm = 0\<close>.
\<close>

record MicState =
  mic_buffer :: "real list"
  mic_bpm_history :: "real list"
  mic_sample_rate :: nat
  mic_bpm :: "real option"

definition initial_mic_state :: MicState where
  "initial_mic_state =
     \<lparr>mic_buffer = [], mic_bpm_history = [], mic_sample_rate = 44100, mic_bpm = Some 0\<rparr>"

text \<open>
  \<open>audio_callback\<close>, the buffer part: extend by the chunk, then
  \<open>if len(self.mic_buffer) > max_buffer_size: self.mic_buffer = self.mic_buffer[-max_buffer_size:]\<close>.
  The WAV writer in between touches no attribute of the state.
\<close>

definition audio_callback :: "MicState \<Rightarrow> real list \<Rightarrow> MicState" where
  "audio_callback s indata =
     (let extended = mic_buffer s @ indata;
          max_buffer_size = mic_sample_rate s * 10
      in s\<lparr>mic_buffer :=
             (if length extended > max_buffer_size then py_tail max_buffer_size extended
              else extended)\<rparr>)"

text \<open>Lines 1726-1733: the 3-point median filter, by index, over the slice \<open>h[i-1:i+2]\<close>.\<close>

definition median_filtered :: "real list \<Rightarrow> real list" where
  "median_filtered h =
     map (\<lambda>i. if i = 0 \<or> i = length h - 1 then h ! i
              else np_median (take 3 (drop (i - 1) h)))
       [0..<length h]"

text \<open>Lines 1736-1739: the exponential moving average, seeded by the first value.\<close>

definition ema_bpm :: "real list \<Rightarrow> real" where
  "ema_bpm filtered =
     (let alpha = 0.3
      in foldl (\<lambda>ema bpm. alpha * bpm + (1 - alpha) * ema) (hd filtered) (tl filtered))"

text \<open>
  Lines 1710-1747: what one stable-phase cycle does with the positive segment estimates.
  With at least one, their median joins the history (cut to the last 20) and the live
  value is recomputed; with none, the live value is touched only when it is absent or
  zero.
\<close>

definition update_live_bpm :: "MicState \<Rightarrow> real list \<Rightarrow> MicState" where
  "update_live_bpm s segment_bpms =
     (if segment_bpms \<noteq> [] then
        (let current_bpm = np_median segment_bpms;
             appended = mic_bpm_history s @ [current_bpm];
             history_size = 20;
             history = (if length appended > history_size then py_tail history_size appended
                        else appended)
         in s\<lparr>mic_bpm_history := history,
               mic_bpm := Some (if length history \<ge> 3 then ema_bpm (median_filtered history)
                                else np_median history)\<rparr>)
      else if mic_bpm s = None \<or> mic_bpm s = Some 0 then s\<lparr>mic_bpm := Some 0\<rparr>
      else s)"

text \<open>
  Lines 1687-1692: the last 7 seconds, divided by the peak amplitude when that is
  positive. \<open>np.max\<close> raises on an empty window.
\<close>

definition analysis_window :: "MicState \<Rightarrow> nat \<Rightarrow> py_error + real list" where
  "analysis_window s seconds =
     (let analysis_buffer = py_tail (mic_sample_rate s * seconds) (mic_buffer s)
      in if analysis_buffer = [] then Inl ValueError
         else
           (let max_val = Max (set (map abs analysis_buffer))
            in if max_val > 0 then Inr (map (\<lambda>x. x / max_val) analysis_buffer)
               else Inr analysis_buffer))"

text \<open>
  Lines 1695-1707: the loop \<open>for i in range(3)\<close> over the 5-second segments starting at
  \<open>max(0, len(analysis_buffer) - segment_samples - i * overlap_samples)\<close>. The batch
  analysis is the parameter \<open>analyze\<close>; an exception it raises leaves the loop.
\<close>

definition segment_at :: "nat \<Rightarrow> real list \<Rightarrow> nat \<Rightarrow> real list" where
  "segment_at sample_rate analysis_buffer i =
     (let segment_samples = 5 * sample_rate;
          overlap_samples = segment_samples div 2;
          start_idx = length analysis_buffer - segment_samples - i * overlap_samples
      in take segment_samples (drop start_idx analysis_buffer))"

fun segment_loop ::
  "(real list \<Rightarrow> nat \<Rightarrow> py_error + real) \<Rightarrow> nat \<Rightarrow> real list \<Rightarrow> nat list \<Rightarrow> real list
     \<Rightarrow> py_error + real list" where
  "segment_loop analyze sample_rate analysis_buffer [] segment_bpms = Inr segment_bpms"
| "segment_loop analyze sample_rate analysis_buffer (i # rest) segment_bpms =
     (case analyze (segment_at sample_rate analysis_buffer i) sample_rate of
        Inl e \<Rightarrow> Inl e
      | Inr segment_bpm \<Rightarrow>
          segment_loop analyze sample_rate analysis_buffer rest
            (if segment_bpm > 0 then segment_bpms @ [segment_bpm] else segment_bpms))"

definition stable_cycle ::
  "(real list \<Rightarrow> nat \<Rightarrow> py_error + real) \<Rightarrow> MicState \<Rightarrow> py_error + MicState" where
  "stable_cycle analyze s =
     (case analysis_window s 7 of
        Inl e \<Rightarrow> Inl e
      | Inr analysis_buffer \<Rightarrow>
          (case segment_loop analyze (mic_sample_rate s) analysis_buffer [0, 1, 2] [] of
             Inl e \<Rightarrow> Inl e
           | Inr segment_bpms \<Rightarrow> Inr (update_live_bpm s segment_bpms)))"

text \<open>Lines 1763-1771: the quick estimate on the last 2 seconds.\<close>

definition quick_cycle ::
  "(real list \<Rightarrow> nat \<Rightarrow> py_error + real) \<Rightarrow> MicState \<Rightarrow> py_error + MicState" where
  "quick_cycle analyze s =
     (case analysis_window s 2 of
        Inl e \<Rightarrow> Inl e
      | Inr analysis_buffer \<Rightarrow>
          (case analyze analysis_buffer (mic_sample_rate s) of
             Inl e \<Rightarrow> Inl e
           | Inr quick_bpm \<Rightarrow>
               Inr (if quick_bpm > 0 then s\<lparr>mic_bpm := Some quick_bpm\<rparr> else s)))"

text \<open>One pass of the \<open>while self.mic_recording\<close> body (the sleep and the chart apart).\<close>

definition monitor_cycle ::
  "(real list \<Rightarrow> nat \<Rightarrow> py_error + real) \<Rightarrow> MicState \<Rightarrow> py_error + MicState" where
  "monitor_cycle analyze s =
     (if length (mic_buffer s) \<ge> mic_sample_rate s * 7 then stable_cycle analyze s
      else if length (mic_buffer s) \<ge> mic_sample_rate s * 2 then quick_cycle analyze s
      else Inr s)"

text \<open>
  \<open>_start_mic_monitoring\<close> empties the buffer and the history (lines 1552-1553); the
  live value is left as it is.
\<close>

definition start_mic_monitoring :: "MicState \<Rightarrow> MicState" where
  "start_mic_monitoring s = s\<lparr>mic_buffer := [], mic_bpm_history := []\<rparr>"

text \<open>
  A monitoring session as a sequence of events, each taken as one step: a chunk arriving
  at the callback, or one pass of the monitor loop. An exception in a pass ends the
  thread.
\<close>

datatype mic_event = Chunk "real list" | Poll

fun run_monitor ::
  "(real list \<Rightarrow> nat \<Rightarrow> py_error + real) \<Rightarrow> MicState \<Rightarrow> mic_event list \<Rightarrow> py_error + MicState"
  where
  "run_monitor analyze s [] = Inr s"
| "run_monitor analyze s (Chunk indata # events) =
     run_monitor analyze (audio_callback s indata) events"
| "run_monitor analyze s (Poll # events) =
     (case monitor_cycle analyze s of
        Inl e \<Rightarrow> Inl e
      | Inr s' \<Rightarrow> run_monitor analyze s' events)"

section \<open>The specification's wording\<close>




text \<open>
  The 3-point median filter: the endpoints pass through, an interior entry becomes the
  median of itself and its two neighbours.
\<close>

definition median3 :: "real \<Rightarrow> real \<Rightarrow> real \<Rightarrow> real" where
  "median3 a b c = max (min a b) (min (max a b) c)"

fun interior_medians :: "real list \<Rightarrow> real list" where
  "interior_medians (a # b # c # rest) = median3 a b c # interior_medians (b # c # rest)"
| "interior_medians _ = []"

definition median_filter_spec :: "real list \<Rightarrow> real list" where
  "median_filter_spec h = hd h # interior_medians h @ [last h]"

text \<open>The exponential moving average \<open>new = 0.3 * value + 0.7 * previous\<close>, left to right.\<close>

fun ema_from :: "real \<Rightarrow> real list \<Rightarrow> real" where
  "ema_from previous [] = previous"
| "ema_from previous (v # vs) = ema_from (0.3 * v + 0.7 * previous) vs"

definition ema_spec :: "real list \<Rightarrow> real" where
  "ema_spec filtered = ema_from (hd filtered) (tl filtered)"

text \<open>The live value the specification gives for a non-empty history.\<close>

definition smoothed_spec :: "real list \<Rightarrow> real" where
  "smoothed_spec h =
     (if length h \<ge> 3 then ema_spec (median_filter_spec h) else np_median h)"

text \<open>
  The invariant of a monitoring session: once the history is not empty, the buffer has
  reached the stable phase and the live value is the smoothed history.
\<close>

definition live_inv :: "MicState \<Rightarrow> bool" where
  "live_inv s \<longleftrightarrow>
     (mic_bpm_history s \<noteq> [] \<longrightarrow>
        mic_sample_rate s * 7 \<le> length (mic_buffer s) \<and>
        mic_bpm s = Some (smoothed_spec (mic_bpm_history s)))"

section \<open>A worked input\<close>




section \<open>Verification: the worked input\<close>




















section \<open>Verification: tempo candidates\<close>









section \<open>Verification: refractory merge\<close>










section \<open>Verification: the rolling buffer\<close>

lemma audio_callback_buffer:
  "0 < mic_sample_rate s \<Longrightarrow>
   mic_buffer (audio_callback s indata)
     = drop (length (mic_buffer s @ indata) - mic_sample_rate s * 10) (mic_buffer s @ indata)"
  by (simp add: audio_callback_def py_tail_def Let_def)

lemma audio_callback_rate [simp]: "mic_sample_rate (audio_callback s indata) = mic_sample_rate s"
  by (simp add: audio_callback_def Let_def)

lemma drop_drop_append:
  "j \<le> length xs \<Longrightarrow> drop k (drop j xs @ ys) = drop (k + j) (xs @ ys)"
  by (simp add: add.commute)

lemma feed_buffer:
  "0 < mic_sample_rate s \<Longrightarrow> length (mic_buffer s) \<le> mic_sample_rate s * 10 \<Longrightarrow>
   mic_buffer (foldl audio_callback s chunks)
     = drop (length (mic_buffer s @ concat chunks) - mic_sample_rate s * 10)
         (mic_buffer s @ concat chunks)"
proof (induction chunks arbitrary: s)
  case Nil
  then show ?case by simp
next
  case (Cons c cs)
  let ?cap = "mic_sample_rate s * 10"
  let ?b = "mic_buffer s @ c"
  let ?s1 = "audio_callback s c"
  have b1: "mic_buffer ?s1 = drop (length ?b - ?cap) ?b"
    using Cons.prems(1) by (rule audio_callback_buffer)
  have "mic_buffer (foldl audio_callback ?s1 cs)
          = drop (length (mic_buffer ?s1 @ concat cs) - ?cap) (mic_buffer ?s1 @ concat cs)"
    using Cons.IH [of ?s1] Cons.prems by (simp add: b1)
  also have "\<dots> = drop (length (mic_buffer ?s1 @ concat cs) - ?cap + (length ?b - ?cap)) (?b @ concat cs)"
    unfolding b1 by (rule drop_drop_append) simp
  also have "length (mic_buffer ?s1 @ concat cs) - ?cap + (length ?b - ?cap)
               = length (?b @ concat cs) - ?cap"
    unfolding b1 by (simp add: ) 
  finally show ?case by simp
qed

text \<open>
  C7. With a positive sample rate, after the callback has appended a chunk the buffer
  holds at most \<open>10 * mic_sample_rate\<close> samples and is the old buffer followed by the
  chunk with only its oldest samples dropped. Over any sequence of chunks, from a buffer
  within the cap, the buffer is the most recent suffix of the whole stream.
\<close>

theorem audio_callback_bounds_buffer:
  assumes "0 < mic_sample_rate s"
  shows "length (mic_buffer (audio_callback s indata)) \<le> 10 * mic_sample_rate s \<and>
         mic_buffer (audio_callback s indata)
           = drop (length (mic_buffer s @ indata) - 10 * mic_sample_rate s)
               (mic_buffer s @ indata) \<and>
         (length (mic_buffer s) \<le> 10 * mic_sample_rate s \<longrightarrow>
            mic_buffer (foldl audio_callback s chunks)
              = drop (length (mic_buffer s @ concat chunks) - 10 * mic_sample_rate s)
                  (mic_buffer s @ concat chunks))"
proof -
  have one: "mic_buffer (audio_callback s indata)
           = drop (length (mic_buffer s @ indata) - 10 * mic_sample_rate s)
               (mic_buffer s @ indata)"
    using audio_callback_buffer [OF assms, of indata] by (simp add: mult.commute)
  have "length (mic_buffer (audio_callback s indata)) \<le> 10 * mic_sample_rate s"
    unfolding one by simp
  moreover have "length (mic_buffer s) \<le> 10 * mic_sample_rate s \<longrightarrow>
            mic_buffer (foldl audio_callback s chunks)
              = drop (length (mic_buffer s @ concat chunks) - 10 * mic_sample_rate s)
                  (mic_buffer s @ concat chunks)"
    using feed_buffer [OF assms, of chunks] by (simp add: mult.commute)
  ultimately show ?thesis using one by simp
qed

theorem audio_callback_bounds_buffer_witness:
  "mic_buffer (audio_callback
      \<lparr>mic_buffer = [1, 2, 3, 4, 5, 6, 7, 8], mic_bpm_history = [], mic_sample_rate = 1,
       mic_bpm = Some 0\<rparr> [9, 10, 11]) = [2, 3, 4, 5, 6, 7, 8, 9, 10, 11] \<and>
   mic_buffer (foldl audio_callback
      \<lparr>mic_buffer = [1, 2, 3, 4, 5, 6, 7, 8], mic_bpm_history = [], mic_sample_rate = 1,
       mic_bpm = Some 0\<rparr> [[9, 10], [11, 12]]) = [3, 4, 5, 6, 7, 8, 9, 10, 11, 12]"
  using audio_callback_bounds_buffer
    [of "\<lparr>mic_buffer = [1, 2, 3, 4, 5, 6, 7, 8], mic_bpm_history = [], mic_sample_rate = 1,
          mic_bpm = Some 0\<rparr>" "[9, 10, 11]" "[[9, 10], [11, 12]]"]
  by simp

section \<open>Verification: construction\<close>

lemma zero_hop_raises:
  "hop_size self = 0 \<Longrightarrow> analyze_audio_data spectrum self audio sr = Inl ValueError"
  by (simp add: analyze_audio_data_def detect_beats_improved_def normalize_audio_def
      np_max_def frame_starts_def)

text \<open>
  C8, as the code has it. The constructor validates nothing: every frame size and hop
  size, a hop at or above the frame size included, gives an analyzer holding exactly
  these values. A configuration the pipeline cannot run with surfaces only when an
  analysis is made: with a zero hop size every analysis raises ValueError.
\<close>

theorem BPMAnalyzer_init_accepts:
  "(\<exists>a. BPMAnalyzer_init fs hs = Inr a \<and> frame_size a = fs \<and> hop_size a = hs) \<and>
   (\<forall>a. BPMAnalyzer_init fs 0 = Inr a \<longrightarrow>
        analyze_audio_data spectrum a audio sr = Inl ValueError)"
  by (auto simp: BPMAnalyzer_init_def intro: zero_hop_raises)

theorem BPMAnalyzer_init_accepts_witness:
  "BPMAnalyzer_init 2048 0 = Inr \<lparr>frame_size = 2048, hop_size = 0,
       beat_threshold_multiplier = 1.3, bpm_smoothing_window = 3,
       spectral_flux_threshold = 0.15\<rparr> \<and>
   analyze_audio_data (\<lambda>frame. []) \<lparr>frame_size = 2048, hop_size = 0,
       beat_threshold_multiplier = 1.3, bpm_smoothing_window = 3,
       spectral_flux_threshold = 0.15\<rparr> [1, 0, 1] 44100 = Inl ValueError"
  using BPMAnalyzer_init_accepts [of 2048 0 "\<lambda>frame. []" "[1, 0, 1]" 44100]
  by (simp add: BPMAnalyzer_init_def)

text \<open>A hop size above the frame size is accepted at construction.\<close>

theorem BPMAnalyzer_init_hop_ge_frame_counterexample:
  "(2048::nat) \<ge> 512 \<and>
   BPMAnalyzer_init 512 2048 = Inr \<lparr>frame_size = 512, hop_size = 2048,
       beat_threshold_multiplier = 1.3, bpm_smoothing_window = 3,
       spectral_flux_threshold = 0.15\<rparr>"
  by (simp add: BPMAnalyzer_init_def)

section \<open>Verification: the stable-phase update\<close>

lemma segment_loop_none:
  assumes "\<forall>i\<in>set is. \<exists>v. analyze (segment_at sr ab i) sr = Inr v \<and> \<not> v > 0"
  shows "segment_loop analyze sr ab is acc = Inr acc"
  using assms by (induction "is" arbitrary: acc) auto

lemma update_live_bpm_none: "mic_bpm s \<noteq> None \<Longrightarrow> update_live_bpm s [] = s"
  by (auto simp: update_live_bpm_def)

text \<open>
  C6. In a stable-phase cycle (the 7-second window exists) in which each of the three
  segment analyses returns a value that is not positive, and a live value is present,
  the cycle leaves the state as it was: the live BPM is kept and nothing is appended to
  the history.
\<close>

theorem stable_cycle_keeps_bpm:
  assumes "analysis_window s 7 = Inr ab"
    and "\<forall>i\<in>{0, 1, 2}. \<exists>v. analyze (segment_at (mic_sample_rate s) ab i) (mic_sample_rate s)
            = Inr v \<and> \<not> v > 0"
    and "mic_bpm s \<noteq> None"
  shows "stable_cycle analyze s = Inr s"
proof -
  have "segment_loop analyze (mic_sample_rate s) ab [0, 1, 2] [] = Inr []"
    by (rule segment_loop_none) (use assms(2) in simp)
  then show ?thesis using assms(1,3) by (simp add: stable_cycle_def update_live_bpm_none)
qed

theorem stable_cycle_keeps_bpm_witness:
  "stable_cycle (\<lambda>seg sr. Inr 0)
     \<lparr>mic_buffer = [1, -2, 1, 0, 0, 1, 1], mic_bpm_history = [100, 120],
      mic_sample_rate = 1, mic_bpm = Some 110\<rparr>
   = Inr \<lparr>mic_buffer = [1, -2, 1, 0, 0, 1, 1], mic_bpm_history = [100, 120],
          mic_sample_rate = 1, mic_bpm = Some 110\<rparr>"
  using stable_cycle_keeps_bpm
    [of "\<lparr>mic_buffer = [1, -2, 1, 0, 0, 1, 1], mic_bpm_history = [100, 120],
          mic_sample_rate = 1, mic_bpm = Some 110\<rparr>"
        "[1/2, -1, 1/2, 0, 0, 1/2, 1/2]" "\<lambda>seg sr. Inr 0"]
  by (simp add: analysis_window_def py_tail_def)

lemma np_median3: "np_median [a, b, c] = median3 a b c"
  by (auto simp: np_median_def median3_def min_def max_def)

lemma np_median1: "np_median [a] = a"
  by (simp add: np_median_def)
lemma np_median2: "np_median [a, b] = (a + b) / 2"
  by (auto simp: np_median_def np_mean_def)

lemma length_interior_medians: "length (interior_medians h) = length h - 2"
  by (induction h rule: interior_medians.induct) auto

lemma nth_interior_medians:
  "i + 2 < length h \<Longrightarrow> interior_medians h ! i = median3 (h ! i) (h ! (i + 1)) (h ! (i + 2))"
proof (induction h arbitrary: i rule: interior_medians.induct)
  case (1 a b c rest)
  then show ?case by (cases i) auto
qed auto

lemma slice3:
  "1 \<le> i \<Longrightarrow> i + 1 < length h \<Longrightarrow> take 3 (drop (i - 1) h) = [h ! (i - 1), h ! i, h ! (i + 1)]"
proof -
  assume a: "1 \<le> i" "i + 1 < length h"
  have "length (take 3 (drop (i - 1) h)) = 3" using a by simp
  then show ?thesis using a
    by (intro nth_equalityI) (auto simp: nth_Cons' less_Suc_eq numeral_3_eq_3)
qed

lemma median_filtered_nth:
  assumes "i < length h"
  shows "median_filtered h ! i =
     (if i = 0 \<or> i = length h - 1 then h ! i else median3 (h ! (i - 1)) (h ! i) (h ! (i + 1)))"
proof (cases "i = 0 \<or> i = length h - 1")
  case True
  then show ?thesis using assms by (auto simp: median_filtered_def)
next
  case False
  then have b: "1 \<le> i" "i + 1 < length h" using assms by auto
  have "median_filtered h ! i = np_median (take 3 (drop (i - 1) h))"
    using assms False by (simp add: median_filtered_def)
  also have "\<dots> = median3 (h ! (i - 1)) (h ! i) (h ! (i + 1))"
    unfolding slice3 [OF b] by (rule np_median3)
  finally show ?thesis using False by simp
qed

lemma median_filter_spec_nth:
  assumes "2 \<le> length h" "i < length h"
  shows "median_filter_spec h ! i =
     (if i = 0 \<or> i = length h - 1 then h ! i else median3 (h ! (i - 1)) (h ! i) (h ! (i + 1)))"
proof (cases "i = 0")
  case True
  then show ?thesis using assms by (cases h) (auto simp: median_filter_spec_def)
next
  case False
  then obtain j where j: "i = Suc j" by (cases i) auto
  have len: "length (interior_medians h) = length h - 2" by (rule length_interior_medians)
  show ?thesis
  proof (cases "i = length h - 1")
    case True
    then have "j = length (interior_medians h)" using j assms len by simp
    then have "(interior_medians h @ [last h]) ! j = last h" by simp
    then have "median_filter_spec h ! i = last h" by (simp add: median_filter_spec_def j)
    moreover have "last h = h ! i" using True assms by (cases h) (auto simp: last_conv_nth)
    ultimately show ?thesis using True by simp
  next
    case F2: False
    then have jl: "j + 2 < length h" using j assms by simp
    then have "j < length (interior_medians h)" using len by simp
    then have "(interior_medians h @ [last h]) ! j = interior_medians h ! j"
      by (simp add: nth_append)
    also have "\<dots> = median3 (h ! j) (h ! (j + 1)) (h ! (j + 2))"
      by (rule nth_interior_medians [OF jl])
    finally have "median_filter_spec h ! i = median3 (h ! j) (h ! (j + 1)) (h ! (j + 2))"
      by (simp add: median_filter_spec_def j)
    then show ?thesis using F2 j by simp
  qed
qed

lemma median_filtered_spec:
  assumes "2 \<le> length h"
  shows "median_filtered h = median_filter_spec h"
proof (rule nth_equalityI)
  show "length (median_filtered h) = length (median_filter_spec h)"
    using assms by (simp add: median_filtered_def median_filter_spec_def length_interior_medians)
next
  fix i assume "i < length (median_filtered h)"
  then have i: "i < length h" by (simp add: median_filtered_def)
  show "median_filtered h ! i = median_filter_spec h ! i"
    unfolding median_filtered_nth [OF i] median_filter_spec_nth [OF assms i] ..
qed

lemma foldl_ema: "foldl (\<lambda>ema bpm. 0.3 * bpm + (1 - 0.3) * ema) p vs = ema_from p vs"
  by (induction vs arbitrary: p) auto

lemma ema_bpm_spec: "ema_bpm xs = ema_spec xs"
  unfolding ema_bpm_def ema_spec_def Let_def by (rule foldl_ema)


lemma update_live_bpm_smoothed:
  assumes "segment_bpms \<noteq> []"
  shows "mic_bpm_history (update_live_bpm s segment_bpms) \<noteq> [] \<and>
         mic_bpm (update_live_bpm s segment_bpms)
           = Some (smoothed_spec (mic_bpm_history (update_live_bpm s segment_bpms)))"
  using assms
  by (auto simp: update_live_bpm_def Let_def py_tail_def smoothed_spec_def ema_bpm_spec
      median_filtered_spec)

lemma update_live_bpm_frame:
  "mic_buffer (update_live_bpm s b) = mic_buffer s \<and>
   mic_sample_rate (update_live_bpm s b) = mic_sample_rate s"
  by (simp add: update_live_bpm_def Let_def)

lemma live_inv_start: "live_inv (start_mic_monitoring s)"
  by (simp add: live_inv_def start_mic_monitoring_def)

lemma live_inv_callback: "live_inv s \<Longrightarrow> live_inv (audio_callback s indata)"
  by (auto simp: live_inv_def audio_callback_def Let_def py_tail_def)

lemma live_inv_update:
  assumes "live_inv s" "mic_sample_rate s * 7 \<le> length (mic_buffer s)"
  shows "live_inv (update_live_bpm s b)"
proof (cases "b = []")
  case True
  then show ?thesis using assms by (auto simp: live_inv_def update_live_bpm_def)
next
  case False
  then show ?thesis
    using update_live_bpm_smoothed [OF False, of s] update_live_bpm_frame [of s b] assms(2)
    by (simp add: live_inv_def)
qed

lemma live_inv_cycle:
  assumes "live_inv s" "monitor_cycle analyze s = Inr s'"
  shows "live_inv s'"
proof (cases "mic_sample_rate s * 7 \<le> length (mic_buffer s)")
  case True
  then obtain b where "s' = update_live_bpm s b"
    using assms(2) by (auto simp: monitor_cycle_def stable_cycle_def split: sum.splits)
  then show ?thesis using live_inv_update [OF assms(1) True] by simp
next
  case False
  then have h: "mic_bpm_history s = []" using assms(1) by (auto simp: live_inv_def)
  have "mic_bpm_history s' = mic_bpm_history s"
    using assms(2) False
    by (auto simp: monitor_cycle_def quick_cycle_def split: sum.splits if_splits)
  then show ?thesis using h by (simp add: live_inv_def)
qed

lemma live_inv_run:
  "live_inv s \<Longrightarrow> run_monitor analyze s events = Inr t \<Longrightarrow> live_inv t"
proof (induction events arbitrary: s)
  case Nil
  then show ?case by simp
next
  case (Cons e events)
  show ?case
  proof (cases e)
    case (Chunk indata)
    then show ?thesis using Cons live_inv_callback [of s indata] by simp
  next
    case Poll
    then obtain s' where "monitor_cycle analyze s = Inr s'" and "run_monitor analyze s' events = Inr t"
      using Cons.prems(2) by (auto split: sum.splits)
    then show ?thesis using Cons.IH [of s'] live_inv_cycle [OF Cons.prems(1)] by simp
  qed
qed

text \<open>
  C5. After a stable-phase update that had a consensus value the history is not empty
  and the live BPM is the smoothed history; and in every state a monitoring session
  reaches (chunks and monitor passes in any order, from the start of monitoring) with a
  non-empty history, the live BPM is the smoothed history. Smoothed means: with at least
  3 entries, the exponential moving average (\<open>0.3 * value + 0.7 * previous\<close>, seeded by
  the first filtered value, left to right) of the 3-point median filter of the whole
  history (same length, first and last entries unchanged, an interior entry replaced by
  the median of itself and its two neighbours); with fewer than 3 entries, the median of
  the history.
\<close>

theorem live_bpm_smoothing:
  "(segment_bpms \<noteq> [] \<longrightarrow>
      mic_bpm_history (update_live_bpm s segment_bpms) \<noteq> [] \<and>
      mic_bpm (update_live_bpm s segment_bpms)
        = Some (smoothed_spec (mic_bpm_history (update_live_bpm s segment_bpms)))) \<and>
   (run_monitor analyze (start_mic_monitoring s0) events = Inr t \<and> mic_bpm_history t \<noteq> [] \<longrightarrow>
      mic_bpm t = Some (smoothed_spec (mic_bpm_history t))) \<and>
   (3 \<le> length h \<longrightarrow> smoothed_spec h = ema_from (hd h) (tl (median_filter_spec h)) \<and>
      length (median_filter_spec h) = length h \<and>
      (\<forall>i<length h. median_filter_spec h ! i =
          (if i = 0 \<or> i = length h - 1 then h ! i
           else median3 (h ! (i - 1)) (h ! i) (h ! (i + 1))))) \<and>
   (length h < 3 \<longrightarrow> smoothed_spec h = np_median h)"
proof -
  have a: "segment_bpms \<noteq> [] \<longrightarrow>
      mic_bpm_history (update_live_bpm s segment_bpms) \<noteq> [] \<and>
      mic_bpm (update_live_bpm s segment_bpms)
        = Some (smoothed_spec (mic_bpm_history (update_live_bpm s segment_bpms)))"
    using update_live_bpm_smoothed by blast
  have b: "run_monitor analyze (start_mic_monitoring s0) events = Inr t \<and> mic_bpm_history t \<noteq> [] \<longrightarrow>
      mic_bpm t = Some (smoothed_spec (mic_bpm_history t))"
    using live_inv_run [OF live_inv_start, of analyze s0 events t] by (auto simp: live_inv_def)
  have c: "3 \<le> length h \<longrightarrow> smoothed_spec h = ema_from (hd h) (tl (median_filter_spec h)) \<and>
      length (median_filter_spec h) = length h \<and>
      (\<forall>i<length h. median_filter_spec h ! i =
          (if i = 0 \<or> i = length h - 1 then h ! i
           else median3 (h ! (i - 1)) (h ! i) (h ! (i + 1))))"
  proof
    assume l: "3 \<le> length h"
    then have l2: "2 \<le> length h" by simp
    have "smoothed_spec h = ema_from (hd h) (tl (median_filter_spec h))"
      using l by (simp add: smoothed_spec_def ema_spec_def median_filter_spec_def)
    moreover have "length (median_filter_spec h) = length h"
      using l by (simp add: median_filter_spec_def length_interior_medians)
    moreover have "\<forall>i<length h. median_filter_spec h ! i =
          (if i = 0 \<or> i = length h - 1 then h ! i
           else median3 (h ! (i - 1)) (h ! i) (h ! (i + 1)))"
      using median_filter_spec_nth [OF l2] by blast
    ultimately show "smoothed_spec h = ema_from (hd h) (tl (median_filter_spec h)) \<and>
      length (median_filter_spec h) = length h \<and>
      (\<forall>i<length h. median_filter_spec h ! i =
          (if i = 0 \<or> i = length h - 1 then h ! i
           else median3 (h ! (i - 1)) (h ! i) (h ! (i + 1))))" by blast
  qed
  have d: "length h < 3 \<longrightarrow> smoothed_spec h = np_median h"
    by (simp add: smoothed_spec_def)
  show ?thesis using a b c d by blast
qed

theorem live_bpm_smoothing_witness:
  "mic_bpm_history (update_live_bpm
      \<lparr>mic_buffer = [], mic_bpm_history = [100, 130, 110], mic_sample_rate = 44100,
       mic_bpm = Some 100\<rparr> [120]) = [100, 130, 110, 120] \<and>
   mic_bpm (update_live_bpm
      \<lparr>mic_buffer = [], mic_bpm_history = [100, 130, 110], mic_sample_rate = 44100,
       mic_bpm = Some 100\<rparr> [120]) = Some 111.67 \<and>
   run_monitor (\<lambda>segment sample_rate. Inr 100)
      (start_mic_monitoring \<lparr>mic_buffer = [5], mic_bpm_history = [90], mic_sample_rate = 1,
       mic_bpm = Some 0\<rparr>) [Chunk [1, 0, 0, 0], Poll, Chunk [0, 1, 0], Poll, Poll]
     = Inr \<lparr>mic_buffer = [1, 0, 0, 0, 0, 1, 0], mic_bpm_history = [100, 100], mic_sample_rate = 1,
       mic_bpm = Some 100\<rparr>"
  using live_bpm_smoothing [of "[120]" "\<lparr>mic_buffer = [], mic_bpm_history = [100, 130, 110],
                   mic_sample_rate = 44100, mic_bpm = Some 100\<rparr>"
      "\<lambda>segment sample_rate. Inr 100"
      "\<lparr>mic_buffer = [5], mic_bpm_history = [90], mic_sample_rate = 1, mic_bpm = Some 0\<rparr>"
      "[Chunk [1, 0, 0, 0], Poll, Chunk [0, 1, 0], Poll, Poll]"
      "\<lparr>mic_buffer = [1, 0, 0, 0, 0, 1, 0], mic_bpm_history = [100, 100], mic_sample_rate = 1,
       mic_bpm = Some 100\<rparr>" "[100, 130, 110, 120]"]
  by (simp add: update_live_bpm_def np_median_def np_mean_def ema_spec_def median_filter_spec_def
      median3_def Let_def smoothed_spec_def start_mic_monitoring_def monitor_cycle_def
      quick_cycle_def stable_cycle_def analysis_window_def py_tail_def audio_callback_def
      segment_at_def)

section \<open>Verification: the IQR filter\<close>







section \<open>Verification: the aggregator\<close>









section \<open>Verification: the range of the estimate\<close>












section \<open>Verification: silent and short buffers\<close>
















end
